theory Spec2Isabelle
  imports Main
begin

section \<open>Data model (package logs)\<close>

text \<open>
  A point in time. Go's \<^verbatim>\<open>time.Time\<close> is kept abstract as the number of seconds since
  January 1, year 1 UTC, so that the zero value \<^verbatim>\<open>time.Time{}\<close> is \<open>Time 0\<close>.
\<close>

datatype Time = Time int

definition zero_Time :: Time where
  "zero_Time = Time 0"

text \<open>
  \<^verbatim>\<open>type Message struct { Name, Instance string; Timestamp time.Time; Text string }\<close>.
  The fields \<open>Name\<close> and \<open>Instance\<close> carry the prefix \<open>M\<close> because the record
  \<open>Request\<close> below has fields of the same names.
\<close>

record Message =
  MName :: string
  MInstance :: string
  Timestamp :: Time
  Text :: string

text \<open>
  \<^verbatim>\<open>type Request struct\<close>: the pointers \<^verbatim>\<open>*time.Time\<close> and \<^verbatim>\<open>*string\<close> are options,
  \<open>None\<close> being the nil pointer. \<open>Limit\<close> is a Go \<^verbatim>\<open>int\<close> (64 bits); the values
  stored in it are produced by \<open>Atoi\<close>, which keeps them in range.
\<close>

record Request =
  Name :: string
  Instance :: string
  Since :: "Time option"
  Limit :: int
  Follow :: bool
  Pattern :: "string option"
  Invert :: bool

text \<open>The zero value of \<^verbatim>\<open>Request\<close>, which a named result of that type starts with.\<close>

definition zero_Request :: Request where
  "zero_Request =
     \<lparr>Name = [], Instance = [], Since = None, Limit = 0, Follow = False,
      Pattern = None, Invert = False\<rparr>"

text \<open>
  Go errors as values. The first two are \<^verbatim>\<open>*strconv.NumError\<close> with \<^verbatim>\<open>ErrSyntax\<close> and
  \<^verbatim>\<open>ErrRange\<close> for the given input, the third is \<^verbatim>\<open>*time.ParseError\<close>, the fourth an
  error of the JSON decoder, the last an error returned by the log requestor.
\<close>

datatype error =
    SyntaxError string
  | RangeError string
  | TimeParseError string
  | DecodeError string
  | QueryError string

section \<open>Standard library functions used by the parser\<close>

text \<open>
  \<^verbatim>\<open>strconv.ParseBool\<close>: it accepts 1, t, T, TRUE, true, True, 0, f, F, FALSE, false,
  False; any other value returns \<open>false\<close> and a syntax error.
\<close>

definition ParseBool :: "string \<Rightarrow> bool \<times> error option" where
  "ParseBool str =
     (if str \<in> set [''1'', ''t'', ''T'', ''TRUE'', ''true'', ''True''] then (True, None)
      else if str \<in> set [''0'', ''f'', ''F'', ''FALSE'', ''false'', ''False''] then (False, None)
      else (False, Some (SyntaxError str)))"

definition isDigit :: "char \<Rightarrow> bool" where
  "isDigit c = ((48::nat) \<le> of_char c \<and> of_char c \<le> (57::nat))"

definition digitsValue :: "string \<Rightarrow> int" where
  "digitsValue ds = foldl (\<lambda>n c. n * 10 + (int (of_char c) - 48)) 0 ds"

definition maxInt :: int where
  "maxInt = 2 ^ 63 - 1"

definition minInt :: int where
  "minInt = - (2 ^ 63)"

text \<open>
  \<^verbatim>\<open>strconv.Atoi\<close> on a 64-bit platform: an optional sign followed by at least one
  decimal digit. A syntax error returns 0; a value out of range returns the nearest
  bound of the type together with a range error.
\<close>

definition Atoi :: "string \<Rightarrow> int \<times> error option" where
  "Atoi s =
     (let neg = (s \<noteq> [] \<and> hd s = CHR ''-'');
          ds = (if s \<noteq> [] \<and> (hd s = CHR ''-'' \<or> hd s = CHR ''+'') then tl s else s)
      in if ds = [] \<or> \<not> list_all isDigit ds then (0, Some (SyntaxError s))
         else let v = (if neg then - digitsValue ds else digitsValue ds)
              in if v > maxInt then (maxInt, Some (RangeError s))
                 else if v < minInt then (minInt, Some (RangeError s))
                 else (v, None))"

text \<open>
  The two library functions the parser calls that are not modelled here are parameters:
  \<^verbatim>\<open>time.Parse(time.RFC3339, s)\<close>, which returns the parsed time or an error (and then
  the zero time, as every failing path of \<^verbatim>\<open>time.Parse\<close> does), and the JSON decoder,
  which fills the request it is given from the body and may return an error.
\<close>

record library =
  time_Parse :: "string \<Rightarrow> error + Time"
  json_Decode :: "string \<Rightarrow> Request \<Rightarrow> Request \<times> error option"

section \<open>The HTTP request\<close>

text \<open>
  \<^verbatim>\<open>url.Values\<close> is \<^verbatim>\<open>map[string][]string\<close>; a missing key reads as the nil slice, of
  length 0. The URL's query is kept as the decoded key/value pairs in the order they
  occur in the query string, and \<open>URL_Query\<close> collects for each key its values in that
  order, as \<^verbatim>\<open>r.URL.Query()\<close> does.
\<close>

type_synonym Values = "string \<Rightarrow> string list"

record http_Request =
  Method :: string
  RawQuery :: "(string \<times> string) list"
  Body :: string

definition URL_Query :: "http_Request \<Rightarrow> Values" where
  "URL_Query r = (\<lambda>k. map snd (filter (\<lambda>p. fst p = k) (RawQuery r)))"

section \<open>The request parser (handler.go)\<close>

text \<open>
  \<^verbatim>\<open>getValue\<close>: the last value of the key, the empty string when there is none. The
  index \<^verbatim>\<open>len(values)-1\<close> is in range because the slice is not empty.
\<close>

definition getValue :: "Values \<Rightarrow> string \<Rightarrow> string" where
  "getValue queryValues name =
     (let values = queryValues name
      in if length values = 0 then [] else values ! (length values - 1))"

text \<open>
  \<^verbatim>\<open>parseRequest\<close>. Both results are returned on every path: the request as far as it
  was filled, and the error (\<open>None\<close> is nil). \<open>parseRequest_GET\<close> is the body of
  \<^verbatim>\<open>case http.MethodGet\<close>, statement by statement; \<open>lr1\<close> to \<open>lr6\<close> are the successive
  values of the named result \<^verbatim>\<open>logRequest\<close>.
\<close>

definition parseRequest_GET :: "library \<Rightarrow> http_Request \<Rightarrow> Request \<times> error option" where
  "parseRequest_GET lib r =
     (let query = URL_Query r;
          lr1 = zero_Request\<lparr>Name := getValue query ''name''\<rparr>;
          lr2 = lr1\<lparr>Instance := getValue query ''instance''\<rparr>;
          limitStr = getValue query ''limit'';
          (lr3, err3) = (if limitStr \<noteq> [] then (lr2\<lparr>Limit := fst (Atoi limitStr)\<rparr>, snd (Atoi limitStr))
                         else (lr2, None))
      in if err3 \<noteq> None then (lr3, err3)
         else
           let lr4 = lr3\<lparr>Follow := fst (ParseBool (getValue query ''follow''))\<rparr>;
               lr5 = lr4\<lparr>Invert := fst (ParseBool (getValue query ''invert''))\<rparr>;
               sinceStr = getValue query ''since'';
               (lr6, err6) = (if sinceStr \<noteq> [] then
                                (case time_Parse lib sinceStr of
                                   Inl e \<Rightarrow> (lr5\<lparr>Since := Some zero_Time\<rparr>, Some e)
                                 | Inr since \<Rightarrow> (lr5\<lparr>Since := Some since\<rparr>, None))
                              else (lr5, None))
           in if err6 \<noteq> None then (lr6, err6)
              else
                let patterns = query ''pattern''
                in if length patterns > 0
                   then (lr6\<lparr>Pattern := Some (patterns ! (length patterns - 1))\<rparr>, None)
                   else (lr6, None))"

definition parseRequest :: "library \<Rightarrow> http_Request \<Rightarrow> Request \<times> error option" where
  "parseRequest lib r =
     (if Method r = ''GET'' then parseRequest_GET lib r
      else if Method r = ''POST'' then json_Decode lib (Body r) zero_Request
      else (zero_Request, None))"

section \<open>The streaming handler (handler.go)\<close>

text \<open>
  The response writer: whether it is an \<^verbatim>\<open>http.CloseNotifier\<close> and an \<^verbatim>\<open>http.Flusher\<close>
  (the two type assertions at the start of the handler).
\<close>

record ResponseWriter =
  is_CloseNotifier :: bool
  is_Flusher :: bool

text \<open>
  What \<^verbatim>\<open>requestor.Query\<close> returns: an error, a nil channel without error, or a channel.
\<close>

datatype query_result = QueryFailed error | NilChannel | Channel

text \<open>The \<^verbatim>\<open>Requestor\<close> interface.\<close>

record Requestor =
  Filter :: "Request \<Rightarrow> Message \<Rightarrow> bool"
  Query :: "Request \<Rightarrow> query_result"

text \<open>
  What the handler does to the outside, in order: calls on the response writer, on the
  JSON encoder writing to it, on the requestor, and the deferred calls. \<open>Encode m\<close> is a
  call of \<^verbatim>\<open>jsonEncoder.Encode\<close> that wrote the line for \<open>m\<close>, \<open>EncodeFailed m\<close> one that
  returned an error, \<open>EncodeFallback m\<close> the call whose result the handler ignores. The
  calls of \<^verbatim>\<open>log.Println\<close> and \<^verbatim>\<open>log.Printf\<close> are left out.
\<close>

datatype event =
    NotFound
  | WriteHeader nat
  | WriteError nat string
  | SetHeader string string
  | Flush
  | QueryCall Request
  | Encode Message
  | EncodeFailed Message
  | EncodeFallback Message
  | CancelQuery
  | BodyClose

text \<open>
  One outcome of the \<^verbatim>\<open>select\<close> statement: the close notification fired, the channel
  delivered a message (with the result the encoder gives if the message is encoded:
  \<open>True\<close> for success), or the channel was closed. A run of the loop is driven by the
  list of the outcomes in order; when the list is used up, neither case is ever ready
  again and the handler stays blocked in \<^verbatim>\<open>select\<close>.
\<close>

datatype select_outcome =
    CloseNotify
  | Receive Message bool
  | Closed

text \<open>How the handler ends; \<open>Blocked\<close> means that it does not return.\<close>

datatype exit =
    Unsupported
  | ParseFailed
  | QueryError_exit
  | Completed
  | Disconnected
  | Faulted
  | LimitReached
  | Blocked

definition failedToSerialize :: Message where
  "failedToSerialize =
     \<lparr>MName = [], MInstance = [], Timestamp = zero_Time,
      Text = ''failed to serialize log message''\<rparr>"

text \<open>
  The loop \<^verbatim>\<open>for messages != nil { select { ... } }\<close>, entered with a non-nil channel;
  \<open>sent\<close> is the local counter.
\<close>

fun streamLoop :: "Requestor \<Rightarrow> Request \<Rightarrow> int \<Rightarrow> select_outcome list \<Rightarrow> event list \<times> exit" where
  "streamLoop requestor logRequest sent [] = ([], Blocked)"
| "streamLoop requestor logRequest sent (CloseNotify # rest) = ([], Disconnected)"
| "streamLoop requestor logRequest sent (Closed # rest) = ([], Completed)"
| "streamLoop requestor logRequest sent (Receive msg ok # rest) =
     (if \<not> Filter requestor logRequest msg then streamLoop requestor logRequest sent rest
      else if \<not> ok then ([EncodeFailed msg, EncodeFallback failedToSerialize], Faulted)
      else if Limit logRequest > 0 then
        (if sent + 1 \<ge> Limit logRequest then ([Encode msg, Flush], LimitReached)
         else (case streamLoop requestor logRequest (sent + 1) rest of
                 (evs, ex) \<Rightarrow> (Encode msg # Flush # evs, ex)))
      else (case streamLoop requestor logRequest sent rest of
              (evs, ex) \<Rightarrow> (Encode msg # Flush # evs, ex)))"

text \<open>
  \<^verbatim>\<open>NewLogHandlerFunc(requestor)\<close> applied to a response writer and a request. The
  deferred calls run when the handler returns: \<^verbatim>\<open>cancelQuery\<close>, when it was deferred,
  then \<^verbatim>\<open>r.Body.Close\<close> (the body of a server request is never nil). A handler that is
  blocked has not run them.
\<close>

definition deferred :: "event list \<Rightarrow> exit \<Rightarrow> event list" where
  "deferred ds ex = (if ex = Blocked then [] else ds)"

definition NewLogHandlerFunc ::
  "library \<Rightarrow> Requestor \<Rightarrow> ResponseWriter \<Rightarrow> http_Request \<Rightarrow> select_outcome list \<Rightarrow> event list \<times> exit" where
  "NewLogHandlerFunc lib requestor w r outcomes =
     (if \<not> is_CloseNotifier w then ([NotFound, BodyClose], Unsupported)
      else if \<not> is_Flusher w then ([NotFound, BodyClose], Unsupported)
      else case parseRequest lib r of
        (logRequest, Some err) \<Rightarrow>
          ([WriteHeader 422, WriteError 422 ''could not parse the log request'', BodyClose],
           ParseFailed)
      | (logRequest, None) \<Rightarrow>
          (case Query requestor logRequest of
             QueryFailed err \<Rightarrow>
               ([QueryCall logRequest, WriteError 500 ''function log request failed'',
                 CancelQuery, BodyClose], QueryError_exit)
           | NilChannel \<Rightarrow>
               ([QueryCall logRequest, SetHeader ''Transfer-Encoding'' ''chunked'',
                 SetHeader ''Content-Type'' ''application/x-ndjson'', WriteHeader 200, Flush,
                 CancelQuery, BodyClose], Completed)
           | Channel \<Rightarrow>
               (case streamLoop requestor logRequest 0 outcomes of
                  (evs, ex) \<Rightarrow>
                    ([QueryCall logRequest, SetHeader ''Transfer-Encoding'' ''chunked'',
                      SetHeader ''Content-Type'' ''application/x-ndjson'', WriteHeader 200, Flush]
                     @ evs @ deferred [CancelQuery, BodyClose] ex, ex))))"

text \<open>The status code of the response: the argument of the first \<^verbatim>\<open>WriteHeader\<close>.\<close>

fun statusCode :: "event list \<Rightarrow> nat option" where
  "statusCode [] = None"
| "statusCode (WriteHeader c # evs) = Some c"
| "statusCode (e # evs) = statusCode evs"

text \<open>The messages whose lines were written by the loop, in order.\<close>

fun written :: "event list \<Rightarrow> Message list" where
  "written [] = []"
| "written (Encode m # evs) = m # written evs"
| "written (e # evs) = written evs"

section \<open>Notions used to state the properties\<close>

text \<open>
  The value of the last occurrence of a key in the query string, \<open>None\<close> when the key
  does not occur.
\<close>

definition lastOccurrence :: "(string \<times> string) list \<Rightarrow> string \<Rightarrow> string option" where
  "lastOccurrence ps k = map_of (rev ps) k"

text \<open>
  The \<open>limit\<close> parameter does not stop the parser: it is absent or empty, or \<open>Atoi\<close>
  accepts it. Likewise for \<open>since\<close> and \<^verbatim>\<open>time.Parse\<close>.
\<close>

definition limitOk :: "http_Request \<Rightarrow> bool" where
  "limitOk r =
     (getValue (URL_Query r) ''limit'' = [] \<or> snd (Atoi (getValue (URL_Query r) ''limit'')) = None)"

definition sinceOk :: "library \<Rightarrow> http_Request \<Rightarrow> bool" where
  "sinceOk lib r =
     (getValue (URL_Query r) ''since'' = []
      \<or> \<not> isl (time_Parse lib (getValue (URL_Query r) ''since'')))"

text \<open>
  A library for the examples: its \<^verbatim>\<open>time.Parse\<close> knows the timestamp of the repository's
  test, February 16, 2019, 09:10:06 UTC, and rejects every other string; its JSON decoder
  accepts the empty object only.
\<close>

definition testLibrary :: library where
  "testLibrary =
     \<lparr>time_Parse = (\<lambda>s. if s = ''2019-02-16T09:10:06+00:00'' then Inr (Time 63685905006)
                         else Inl (TimeParseError s)),
      json_Decode = (\<lambda>body lr. if body = ''{}'' then (lr, None)
                                else (lr, Some (DecodeError body)))\<rparr>"

text \<open>A requestor for the examples: it keeps the messages whose text is not empty.\<close>

definition testRequestor :: Requestor where
  "testRequestor = \<lparr>Filter = (\<lambda>lr m. Text m \<noteq> []), Query = (\<lambda>lr. Channel)\<rparr>"

definition message :: "string \<Rightarrow> Message" where
  "message t = \<lparr>MName = ''fn'', MInstance = ''i1'', Timestamp = zero_Time, Text = t\<rparr>"

definition streamingWriter :: ResponseWriter where
  "streamingWriter = \<lparr>is_CloseNotifier = True, is_Flusher = True\<rparr>"

text \<open>A query string in which each of the seven parameters occurs twice.\<close>

definition repeatedQuery :: "(string \<times> string) list" where
  "repeatedQuery =
     [(''name'', ''foobar''), (''limit'', ''3''), (''follow'', ''false''), (''invert'', ''true''),
      (''since'', ''yesterday''), (''pattern'', ''x''), (''instance'', ''i0''),
      (''name'', ''theactual name''), (''limit'', ''5''), (''follow'', ''true''),
      (''invert'', ''0''), (''since'', ''2019-02-16T09:10:06+00:00''),
      (''pattern'', ''^200.*''), (''instance'', ''abc123'')]"

text \<open>
  The events of writing the lines of the given messages, each followed by its flush; the
  \<^verbatim>\<open>select\<close> outcomes that deliver the given messages, each of which the encoder then
  writes; the events that start the streamed response; and a list of outcomes without
  the messages that \<open>Filter\<close> rejects.
\<close>

definition lines :: "Message list \<Rightarrow> event list" where
  "lines ms = concat (map (\<lambda>m. [Encode m, Flush]) ms)"

definition delivered :: "Message list \<Rightarrow> select_outcome list" where
  "delivered ms = map (\<lambda>m. Receive m True) ms"

definition streamingHeaders :: "event list" where
  "streamingHeaders =
     [SetHeader ''Transfer-Encoding'' ''chunked'',
      SetHeader ''Content-Type'' ''application/x-ndjson'', WriteHeader 200, Flush]"

definition dropRejected :: "Requestor \<Rightarrow> Request \<Rightarrow> select_outcome list \<Rightarrow> select_outcome list" where
  "dropRejected requestor lr outcomes =
     filter (\<lambda>out. case out of Receive m ok \<Rightarrow> Filter requestor lr m | _ \<Rightarrow> True) outcomes"

section \<open>The parser reads the last occurrence of each key\<close>

lemma values_last:
  "lastOccurrence ps k =
     (let vs = map snd (filter (\<lambda>p. fst p = k) ps) in if vs = [] then None else Some (last vs))"
  unfolding lastOccurrence_def
  by (induction ps rule: rev_induct) (auto simp: Let_def)

lemma lastOccurrence_None: "(lastOccurrence ps k = None) = (k \<notin> fst ` set ps)"
  by (simp add: lastOccurrence_def map_of_eq_None_iff)

lemma getValue_lastOccurrence:
  "getValue (URL_Query r) k = (case lastOccurrence (RawQuery r) k of None \<Rightarrow> [] | Some v \<Rightarrow> v)"
  by (simp add: getValue_def URL_Query_def values_last Let_def last_conv_nth)

lemma pattern_nonempty:
  "(0 < length (URL_Query r k)) = (lastOccurrence (RawQuery r) k \<noteq> None)"
  by (simp add: URL_Query_def values_last Let_def)

lemma pattern_last:
  "0 < length (URL_Query r k) \<Longrightarrow>
     Some (URL_Query r k ! (length (URL_Query r k) - 1)) = lastOccurrence (RawQuery r) k"
  by (simp add: URL_Query_def values_last Let_def last_conv_nth)

text \<open>Two GET requests whose keys have the same last occurrences parse alike.\<close>

lemma parseRequest_GET_cong:
  assumes "lastOccurrence (RawQuery r) = lastOccurrence (RawQuery r')"
  shows "parseRequest_GET lib r = parseRequest_GET lib r'"
proof -
  have gv: "\<And>k. getValue (URL_Query r) k = getValue (URL_Query r') k"
    by (simp add: getValue_lastOccurrence assms)
  have ne: "(0 < length (URL_Query r ''pattern'')) = (0 < length (URL_Query r' ''pattern''))"
    by (simp only: pattern_nonempty assms)
  have la: "0 < length (URL_Query r ''pattern'') \<Longrightarrow>
     URL_Query r ''pattern'' ! (length (URL_Query r ''pattern'') - 1)
     = URL_Query r' ''pattern'' ! (length (URL_Query r' ''pattern'') - 1)"
    using pattern_last [of r "''pattern''"] pattern_last [of r' "''pattern''"] ne assms
    by (metis option.inject)
  show ?thesis
    unfolding parseRequest_GET_def Let_def gv
    using ne la by (auto simp: case_prod_beta split: sum.splits)
qed

lemma lastOccurrence_replace:
  assumes "lastOccurrence ps k = Some v"
  shows "lastOccurrence ((k, v) # filter (\<lambda>p. fst p \<noteq> k) ps) = lastOccurrence ps"
proof
  fix k'
  show "lastOccurrence ((k, v) # filter (\<lambda>p. fst p \<noteq> k) ps) k' = lastOccurrence ps k'"
  proof (cases "k' = k")
    case True
    have "filter (\<lambda>p. fst p = k) (filter (\<lambda>p. fst p \<noteq> k) ps) = []"
      by (induction ps) auto
    then show ?thesis using assms True by (simp add: values_last [of "(k, v) # _"] Let_def)
  next
    case False
    have "filter (\<lambda>p. fst p = k') (filter (\<lambda>p. fst p \<noteq> k) ps) = filter (\<lambda>p. fst p = k') ps"
      using False by (induction ps) auto
    then show ?thesis using False by (simp add: values_last Let_def)
  qed
qed

section \<open>What a GET request parses to\<close>

text \<open>
  The error and the fields of the request returned by the GET branch, in terms of the
  two parameters whose parsing can stop it.
\<close>

lemma parseRequest_GET_error:
  "snd (parseRequest_GET lib r) =
     (if \<not> limitOk r then snd (Atoi (getValue (URL_Query r) ''limit''))
      else if sinceOk lib r then None
      else Some (projl (time_Parse lib (getValue (URL_Query r) ''since''))))"
  by (auto simp: parseRequest_GET_def limitOk_def sinceOk_def Let_def case_prod_beta split: sum.splits)

lemma parseRequest_GET_Since:
  "Since (fst (parseRequest_GET lib r)) =
     (if \<not> limitOk r \<or> getValue (URL_Query r) ''since'' = [] then None
      else case time_Parse lib (getValue (URL_Query r) ''since'') of
             Inl e \<Rightarrow> Some zero_Time | Inr t \<Rightarrow> Some t)"
  by (auto simp: parseRequest_GET_def limitOk_def zero_Request_def Let_def case_prod_beta split: sum.splits)

lemma parseRequest_GET_Pattern:
  "Pattern (fst (parseRequest_GET lib r)) =
     (if limitOk r \<and> sinceOk lib r then lastOccurrence (RawQuery r) ''pattern'' else None)"
  using pattern_last [of r "''pattern''"] pattern_nonempty [of r "''pattern''"]
  by (auto simp: parseRequest_GET_def limitOk_def sinceOk_def zero_Request_def Let_def case_prod_beta split: sum.splits)

lemma parseRequest_GET_Follow:
  "Follow (fst (parseRequest_GET lib r)) = (limitOk r \<and> fst (ParseBool (getValue (URL_Query r) ''follow'')))"
  by (auto simp: parseRequest_GET_def limitOk_def zero_Request_def Let_def case_prod_beta split: sum.splits)

lemma parseRequest_GET_Invert:
  "Invert (fst (parseRequest_GET lib r)) = (limitOk r \<and> fst (ParseBool (getValue (URL_Query r) ''invert'')))"
  by (auto simp: parseRequest_GET_def limitOk_def zero_Request_def Let_def case_prod_beta split: sum.splits)

lemma parseRequest_GET_Name:
  "Name (fst (parseRequest_GET lib r)) = getValue (URL_Query r) ''name''"
  by (simp add: parseRequest_GET_def Let_def case_prod_beta split: sum.splits)

lemma parseRequest_GET_Instance:
  "Instance (fst (parseRequest_GET lib r)) = getValue (URL_Query r) ''instance''"
  by (simp add: parseRequest_GET_def Let_def case_prod_beta split: sum.splits)

lemma parseRequest_GET_Limit:
  "Limit (fst (parseRequest_GET lib r)) =
     (if getValue (URL_Query r) ''limit'' = [] then 0
      else fst (Atoi (getValue (URL_Query r) ''limit'')))"
  by (auto simp: parseRequest_GET_def zero_Request_def Let_def case_prod_beta split: sum.splits)

text \<open>
  C5. When a key occurs in the query string of a request, once or several times,
  \<open>getValue\<close> returns the value \<open>v\<close> of its last occurrence, and \<open>parseRequest\<close> returns
  what it returns for the request in which that key occurs once, with that value (so no
  earlier occurrence has any effect). For a GET request, each parameter's field is
  parsed from \<open>v\<close>: \<open>Name\<close> and \<open>Instance\<close> are \<open>v\<close>; \<open>Limit\<close> is what \<open>Atoi\<close> returns for
  \<open>v\<close> (0 for the empty \<open>v\<close>), and an error of \<open>Atoi\<close> on \<open>v\<close> is the error returned; when
  \<open>limit\<close> does not stop the parser, \<open>Follow\<close> and \<open>Invert\<close> are what \<open>ParseBool\<close> returns
  for \<open>v\<close>, and \<open>Since\<close> and the error are those of \<^verbatim>\<open>time.Parse\<close> on a non-empty \<open>v\<close>; when
  neither \<open>limit\<close> nor \<open>since\<close> stops it, \<open>Pattern\<close> is set to \<open>v\<close>.
\<close>

theorem parseRequest_last_occurrence:
  assumes "lastOccurrence (RawQuery r) k = Some v"
  shows "getValue (URL_Query r) k = v
       \<and> parseRequest lib r
           = parseRequest lib (r\<lparr>RawQuery := (k, v) # filter (\<lambda>p. fst p \<noteq> k) (RawQuery r)\<rparr>)
       \<and> (Method r = ''GET'' \<and> k = ''name'' \<longrightarrow> Name (fst (parseRequest lib r)) = v)
       \<and> (Method r = ''GET'' \<and> k = ''instance'' \<longrightarrow> Instance (fst (parseRequest lib r)) = v)
       \<and> (Method r = ''GET'' \<and> k = ''limit'' \<longrightarrow>
            Limit (fst (parseRequest lib r)) = (if v = [] then 0 else fst (Atoi v))
            \<and> (limitOk r \<longleftrightarrow> v = [] \<or> snd (Atoi v) = None)
            \<and> (\<not> limitOk r \<longrightarrow> snd (parseRequest lib r) = snd (Atoi v)))
       \<and> (Method r = ''GET'' \<and> k = ''follow'' \<and> limitOk r \<longrightarrow>
            Follow (fst (parseRequest lib r)) = fst (ParseBool v))
       \<and> (Method r = ''GET'' \<and> k = ''invert'' \<and> limitOk r \<longrightarrow>
            Invert (fst (parseRequest lib r)) = fst (ParseBool v))
       \<and> (Method r = ''GET'' \<and> k = ''since'' \<and> limitOk r \<and> v \<noteq> [] \<longrightarrow>
            Since (fst (parseRequest lib r))
              = (case time_Parse lib v of Inl e \<Rightarrow> Some zero_Time | Inr t \<Rightarrow> Some t)
            \<and> snd (parseRequest lib r)
              = (case time_Parse lib v of Inl e \<Rightarrow> Some e | Inr t \<Rightarrow> None))
       \<and> (Method r = ''GET'' \<and> k = ''pattern'' \<and> limitOk r \<and> sinceOk lib r \<longrightarrow>
            Pattern (fst (parseRequest lib r)) = Some v)"
proof -
  have a: "getValue (URL_Query r) k = v"
    by (simp add: getValue_lastOccurrence assms)
  have b: "parseRequest lib r
           = parseRequest lib (r\<lparr>RawQuery := (k, v) # filter (\<lambda>p. fst p \<noteq> k) (RawQuery r)\<rparr>)"
    unfolding parseRequest_def
    using parseRequest_GET_cong
            [of r "r\<lparr>RawQuery := (k, v) # filter (\<lambda>p. fst p \<noteq> k) (RawQuery r)\<rparr>" lib]
      lastOccurrence_replace [OF assms]
    by simp
  have c: "Method r = ''GET'' \<and> k = ''name'' \<longrightarrow> Name (fst (parseRequest lib r)) = v"
    using a by (auto simp: parseRequest_def parseRequest_GET_Name)
  have d: "Method r = ''GET'' \<and> k = ''instance'' \<longrightarrow> Instance (fst (parseRequest lib r)) = v"
    using a by (auto simp: parseRequest_def parseRequest_GET_Instance)
  have l1: "Method r = ''GET'' \<and> k = ''limit'' \<longrightarrow>
              Limit (fst (parseRequest lib r)) = (if v = [] then 0 else fst (Atoi v))"
    using a by (auto simp: parseRequest_def parseRequest_GET_Limit)
  have l2: "k = ''limit'' \<longrightarrow> (limitOk r \<longleftrightarrow> v = [] \<or> snd (Atoi v) = None)"
    using a by (auto simp: limitOk_def)
  have l3: "Method r = ''GET'' \<and> k = ''limit'' \<longrightarrow>
              (\<not> limitOk r \<longrightarrow> snd (parseRequest lib r) = snd (Atoi v))"
    using a by (auto simp: parseRequest_def parseRequest_GET_error)
  have f: "Method r = ''GET'' \<and> k = ''follow'' \<and> limitOk r \<longrightarrow>
            Follow (fst (parseRequest lib r)) = fst (ParseBool v)"
    using a by (auto simp: parseRequest_def parseRequest_GET_Follow)
  have i: "Method r = ''GET'' \<and> k = ''invert'' \<and> limitOk r \<longrightarrow>
            Invert (fst (parseRequest lib r)) = fst (ParseBool v)"
    using a by (auto simp: parseRequest_def parseRequest_GET_Invert)
  have s1: "Method r = ''GET'' \<and> k = ''since'' \<and> limitOk r \<and> v \<noteq> [] \<longrightarrow>
            Since (fst (parseRequest lib r))
              = (case time_Parse lib v of Inl e \<Rightarrow> Some zero_Time | Inr t \<Rightarrow> Some t)"
    using a by (auto simp: parseRequest_def parseRequest_GET_Since)
  have s2: "Method r = ''GET'' \<and> k = ''since'' \<and> limitOk r \<and> v \<noteq> [] \<longrightarrow>
            snd (parseRequest lib r)
              = (case time_Parse lib v of Inl e \<Rightarrow> Some e | Inr t \<Rightarrow> None)"
    using a by (auto simp: parseRequest_def parseRequest_GET_error sinceOk_def split: sum.splits)
  have p: "Method r = ''GET'' \<and> k = ''pattern'' \<and> limitOk r \<and> sinceOk lib r \<longrightarrow>
            Pattern (fst (parseRequest lib r)) = Some v"
    using assms by (auto simp: parseRequest_def parseRequest_GET_Pattern)
  have l: "Method r = ''GET'' \<and> k = ''limit'' \<longrightarrow>
            Limit (fst (parseRequest lib r)) = (if v = [] then 0 else fst (Atoi v))
            \<and> (limitOk r \<longleftrightarrow> v = [] \<or> snd (Atoi v) = None)
            \<and> (\<not> limitOk r \<longrightarrow> snd (parseRequest lib r) = snd (Atoi v))"
    using l1 l2 l3 by simp
  have s: "Method r = ''GET'' \<and> k = ''since'' \<and> limitOk r \<and> v \<noteq> [] \<longrightarrow>
            Since (fst (parseRequest lib r))
              = (case time_Parse lib v of Inl e \<Rightarrow> Some zero_Time | Inr t \<Rightarrow> Some t)
            \<and> snd (parseRequest lib r)
              = (case time_Parse lib v of Inl e \<Rightarrow> Some e | Inr t \<Rightarrow> None)"
    using s1 s2 by simp
  from a b c d l f i s p show ?thesis
    by - (intro conjI, assumption+)
qed


theorem parseRequest_last_occurrence_witness:
  "lastOccurrence repeatedQuery ''name'' = Some ''theactual name''
   \<and> lastOccurrence repeatedQuery ''instance'' = Some ''abc123''
   \<and> lastOccurrence repeatedQuery ''limit'' = Some ''5''
   \<and> lastOccurrence repeatedQuery ''follow'' = Some ''true''
   \<and> lastOccurrence repeatedQuery ''invert'' = Some ''0''
   \<and> lastOccurrence repeatedQuery ''since'' = Some ''2019-02-16T09:10:06+00:00''
   \<and> lastOccurrence repeatedQuery ''pattern'' = Some ''^200.*''
   \<and> Name (fst (parseRequest testLibrary \<lparr>Method = ''GET'', RawQuery = repeatedQuery, Body = []\<rparr>))
       = ''theactual name''
   \<and> Instance (fst (parseRequest testLibrary \<lparr>Method = ''GET'', RawQuery = repeatedQuery, Body = []\<rparr>))
       = ''abc123''
   \<and> Limit (fst (parseRequest testLibrary \<lparr>Method = ''GET'', RawQuery = repeatedQuery, Body = []\<rparr>))
       = 5
   \<and> Follow (fst (parseRequest testLibrary \<lparr>Method = ''GET'', RawQuery = repeatedQuery, Body = []\<rparr>))
       = True
   \<and> Invert (fst (parseRequest testLibrary \<lparr>Method = ''GET'', RawQuery = repeatedQuery, Body = []\<rparr>))
       = False
   \<and> Since (fst (parseRequest testLibrary \<lparr>Method = ''GET'', RawQuery = repeatedQuery, Body = []\<rparr>))
       = Some (Time 63685905006)
   \<and> Pattern (fst (parseRequest testLibrary \<lparr>Method = ''GET'', RawQuery = repeatedQuery, Body = []\<rparr>))
       = Some ''^200.*''"
proof -
  let ?r = "\<lparr>Method = ''GET'', RawQuery = repeatedQuery, Body = []\<rparr>"
  have m: "Method ?r = ''GET''"
    by simp
  have hn: "lastOccurrence (RawQuery ?r) ''name'' = Some ''theactual name''"
    and hi: "lastOccurrence (RawQuery ?r) ''instance'' = Some ''abc123''"
    and hl: "lastOccurrence (RawQuery ?r) ''limit'' = Some ''5''"
    and hf: "lastOccurrence (RawQuery ?r) ''follow'' = Some ''true''"
    and hv: "lastOccurrence (RawQuery ?r) ''invert'' = Some ''0''"
    and hs: "lastOccurrence (RawQuery ?r) ''since'' = Some ''2019-02-16T09:10:06+00:00''"
    and hp: "lastOccurrence (RawQuery ?r) ''pattern'' = Some ''^200.*''"
    by (simp_all add: lastOccurrence_def repeatedQuery_def)
  have a5: "Atoi ''5'' = (5, None)"
    by (simp add: Atoi_def isDigit_def digitsValue_def maxInt_def minInt_def Let_def)
  have tp: "time_Parse testLibrary ''2019-02-16T09:10:06+00:00'' = Inr (Time 63685905006)"
    by (simp add: testLibrary_def)
  note cn = parseRequest_last_occurrence [OF hn, of testLibrary, THEN conjunct2, THEN conjunct2, THEN conjunct1]
  note ci = parseRequest_last_occurrence [OF hi, of testLibrary, THEN conjunct2, THEN conjunct2, THEN conjunct2, THEN conjunct1]
  note cl = parseRequest_last_occurrence [OF hl, of testLibrary, THEN conjunct2, THEN conjunct2, THEN conjunct2, THEN conjunct2, THEN conjunct1]
  note cf = parseRequest_last_occurrence [OF hf, of testLibrary, THEN conjunct2, THEN conjunct2, THEN conjunct2, THEN conjunct2, THEN conjunct2, THEN conjunct1]
  note cv = parseRequest_last_occurrence [OF hv, of testLibrary, THEN conjunct2, THEN conjunct2, THEN conjunct2, THEN conjunct2, THEN conjunct2, THEN conjunct2, THEN conjunct1]
  note cs = parseRequest_last_occurrence [OF hs, of testLibrary, THEN conjunct2, THEN conjunct2, THEN conjunct2, THEN conjunct2, THEN conjunct2, THEN conjunct2, THEN conjunct2, THEN conjunct1]
  note cp = parseRequest_last_occurrence [OF hp, of testLibrary, THEN conjunct2, THEN conjunct2, THEN conjunct2, THEN conjunct2, THEN conjunct2, THEN conjunct2, THEN conjunct2, THEN conjunct2]
  have lo: "limitOk ?r"
    using cl a5 by simp
  have n: "Name (fst (parseRequest testLibrary ?r)) = ''theactual name''"
    using cn by simp
  have i: "Instance (fst (parseRequest testLibrary ?r)) = ''abc123''"
    using ci by simp
  have l: "Limit (fst (parseRequest testLibrary ?r)) = 5"
    using cl a5 by simp
  have f: "Follow (fst (parseRequest testLibrary ?r)) = True"
    using cf lo by (simp add: ParseBool_def)
  have v: "Invert (fst (parseRequest testLibrary ?r)) = False"
    using cv lo by (simp add: ParseBool_def)
  have s: "Since (fst (parseRequest testLibrary ?r)) = Some (Time 63685905006)"
    and e: "snd (parseRequest testLibrary ?r) = None"
    using cs lo by (simp_all add: tp)
  have so: "sinceOk testLibrary ?r"
    using parseRequest_last_occurrence [OF hs, of testLibrary, THEN conjunct1]
    by (simp add: sinceOk_def tp)
  have p: "Pattern (fst (parseRequest testLibrary ?r)) = Some ''^200.*''"
    using cp lo so by simp
  show ?thesis
    using hn hi hl hf hv hs hp n i l f v s p by simp
qed

text \<open>
  C6, as stated, fails: a GET request with a non-numeric \<open>limit\<close> and a \<open>pattern\<close> key
  leaves \<open>Pattern\<close> unset, because the parser returns at the \<open>limit\<close> error, before
  it reads \<open>pattern\<close>.
\<close>

theorem pattern_iff_key_counterexample:
  "\<not> (Pattern (fst (parseRequest testLibrary
          \<lparr>Method = ''GET'', RawQuery = [(''limit'', ''abc''), (''pattern'', ''x'')], Body = []\<rparr>)) \<noteq> None
       \<longleftrightarrow> ''pattern'' \<in> fst ` set [(''limit'', ''abc''), (''pattern'', ''x'')])"
  by (simp add: parseRequest_def parseRequest_GET_def URL_Query_def getValue_def zero_Request_def
        Atoi_def isDigit_def Let_def)

text \<open>
  C6, amended. For a GET request that parses without error, \<open>Pattern\<close> is the value of
  the last occurrence of the key \<open>pattern\<close>: it is set exactly when the key occurs, and
  a last occurrence with the empty value gives the set, empty pattern \<open>Some []\<close>, which
  differs from the unset \<open>None\<close>. Parsing returns no error exactly when neither \<open>limit\<close>
  nor \<open>since\<close> stops it; when it returns an error, \<open>Pattern\<close> is unset.
\<close>

theorem parseRequest_Pattern:
  assumes "Method r = ''GET''"
  shows "(snd (parseRequest lib r) = None \<longrightarrow>
            Pattern (fst (parseRequest lib r)) = lastOccurrence (RawQuery r) ''pattern''
          \<and> (Pattern (fst (parseRequest lib r)) \<noteq> None \<longleftrightarrow> ''pattern'' \<in> fst ` set (RawQuery r)))
       \<and> (snd (parseRequest lib r) \<noteq> None \<longrightarrow> Pattern (fst (parseRequest lib r)) = None)
       \<and> (snd (parseRequest lib r) = None \<longleftrightarrow> limitOk r \<and> sinceOk lib r)"
proof -
  have e: "(snd (parseRequest lib r) = None) = (limitOk r \<and> sinceOk lib r)"
    using assms by (auto simp: parseRequest_def parseRequest_GET_error limitOk_def)
  have p: "Pattern (fst (parseRequest lib r)) =
     (if limitOk r \<and> sinceOk lib r then lastOccurrence (RawQuery r) ''pattern'' else None)"
    using assms by (simp add: parseRequest_def parseRequest_GET_Pattern)
  show ?thesis
    using lastOccurrence_None [of "RawQuery r" "''pattern''"] by (simp add: e p)
qed

theorem parseRequest_Pattern_witness:
  "Method \<lparr>Method = ''GET'', RawQuery = [(''pattern'', ''x''), (''limit'', ''5''), (''pattern'', [])], Body = []\<rparr> = ''GET''
   \<and> snd (parseRequest testLibrary
        \<lparr>Method = ''GET'', RawQuery = [(''pattern'', ''x''), (''limit'', ''5''), (''pattern'', [])], Body = []\<rparr>) = None
   \<and> Pattern (fst (parseRequest testLibrary
        \<lparr>Method = ''GET'', RawQuery = [(''pattern'', ''x''), (''limit'', ''5''), (''pattern'', [])], Body = []\<rparr>)) = Some []
   \<and> Pattern (fst (parseRequest testLibrary
        \<lparr>Method = ''GET'', RawQuery = [(''limit'', ''5'')], Body = []\<rparr>)) = None"
  using parseRequest_Pattern
    [of "\<lparr>Method = ''GET'', RawQuery = [(''pattern'', ''x''), (''limit'', ''5''), (''pattern'', [])], Body = []\<rparr>" testLibrary]
    parseRequest_Pattern
    [of "\<lparr>Method = ''GET'', RawQuery = [(''limit'', ''5'')], Body = []\<rparr>" testLibrary]
  by (simp add: lastOccurrence_def limitOk_def sinceOk_def URL_Query_def getValue_def
        Atoi_def isDigit_def digitsValue_def maxInt_def minInt_def Let_def)


text \<open>
  C8, as stated, fails: the GET request with the query \<open>limit=abc\<close> has no \<open>since\<close>
  parameter, and parsing it returns an error all the same, the one of \<open>limit\<close>; and
  with the query \<open>limit=abc&since=yesterday\<close>, whose \<open>since\<close> value is malformed, the
  error returned is again the one of \<open>limit\<close>, not one of \<^verbatim>\<open>time.Parse\<close>.
\<close>

theorem since_error_counterexample:
  "getValue (URL_Query \<lparr>Method = ''GET'', RawQuery = [(''limit'', ''abc'')], Body = []\<rparr>) ''since'' = []
   \<and> snd (parseRequest testLibrary \<lparr>Method = ''GET'', RawQuery = [(''limit'', ''abc'')], Body = []\<rparr>)
       = Some (SyntaxError ''abc'')
   \<and> getValue (URL_Query
         \<lparr>Method = ''GET'', RawQuery = [(''limit'', ''abc''), (''since'', ''yesterday'')], Body = []\<rparr>)
         ''since'' = ''yesterday''
   \<and> time_Parse testLibrary ''yesterday'' = Inl (TimeParseError ''yesterday'')
   \<and> snd (parseRequest testLibrary
         \<lparr>Method = ''GET'', RawQuery = [(''limit'', ''abc''), (''since'', ''yesterday'')], Body = []\<rparr>)
       = Some (SyntaxError ''abc'')"
  by (simp add: parseRequest_def parseRequest_GET_def URL_Query_def getValue_def zero_Request_def
        testLibrary_def Atoi_def isDigit_def Let_def)

text \<open>
  C8, amended. For a GET request whose \<open>limit\<close> parameter is absent, empty or accepted by
  \<open>Atoi\<close>, parsing returns an error if and only if the \<open>since\<close> value is not empty and
  \<^verbatim>\<open>time.Parse\<close> rejects it. For every GET request: a non-empty \<open>since\<close> value that
  \<^verbatim>\<open>time.Parse\<close> rejects makes parsing return an error, and an absent or empty \<open>since\<close>
  leaves \<open>Since\<close> unset. When \<open>limit\<close> does not stop the parser, a \<open>since\<close> value that
  \<^verbatim>\<open>time.Parse\<close> accepts gives no error and \<open>Since\<close> is the parsed instant.
\<close>

theorem parseRequest_since:
  assumes "Method r = ''GET''"
  shows "(limitOk r \<longrightarrow>
            (snd (parseRequest lib r) \<noteq> None \<longleftrightarrow>
               getValue (URL_Query r) ''since'' \<noteq> []
               \<and> isl (time_Parse lib (getValue (URL_Query r) ''since''))))
       \<and> (getValue (URL_Query r) ''since'' \<noteq> []
            \<and> isl (time_Parse lib (getValue (URL_Query r) ''since''))
            \<longrightarrow> snd (parseRequest lib r) \<noteq> None)
       \<and> (getValue (URL_Query r) ''since'' = [] \<longrightarrow> Since (fst (parseRequest lib r)) = None)
       \<and> (limitOk r \<longrightarrow>
            (\<forall>t. time_Parse lib (getValue (URL_Query r) ''since'') = Inr t
                 \<and> getValue (URL_Query r) ''since'' \<noteq> []
                 \<longrightarrow> snd (parseRequest lib r) = None \<and> Since (fst (parseRequest lib r)) = Some t))"
proof -
  have e: "snd (parseRequest lib r) =
     (if \<not> limitOk r then snd (Atoi (getValue (URL_Query r) ''limit''))
      else if sinceOk lib r then None
      else Some (projl (time_Parse lib (getValue (URL_Query r) ''since''))))"
    using assms by (simp add: parseRequest_def parseRequest_GET_error)
  have s: "Since (fst (parseRequest lib r)) =
     (if \<not> limitOk r \<or> getValue (URL_Query r) ''since'' = [] then None
      else case time_Parse lib (getValue (URL_Query r) ''since'') of
             Inl e \<Rightarrow> Some zero_Time | Inr t \<Rightarrow> Some t)"
    using assms by (simp add: parseRequest_def parseRequest_GET_Since)
  have 1: "limitOk r \<Longrightarrow> (snd (parseRequest lib r) \<noteq> None) =
               (getValue (URL_Query r) ''since'' \<noteq> []
               \<and> isl (time_Parse lib (getValue (URL_Query r) ''since'')))"
    by (simp add: e sinceOk_def)
  have 2: "getValue (URL_Query r) ''since'' \<noteq> []
            \<and> isl (time_Parse lib (getValue (URL_Query r) ''since''))
            \<Longrightarrow> snd (parseRequest lib r) \<noteq> None"
    by (auto simp: e sinceOk_def limitOk_def)
  have 3: "getValue (URL_Query r) ''since'' = [] \<Longrightarrow> Since (fst (parseRequest lib r)) = None"
    by (simp add: s)
  have 4: "limitOk r \<Longrightarrow> time_Parse lib (getValue (URL_Query r) ''since'') = Inr t
                 \<and> getValue (URL_Query r) ''since'' \<noteq> []
                 \<Longrightarrow> snd (parseRequest lib r) = None \<and> Since (fst (parseRequest lib r)) = Some t" for t
    using 1 by (simp add: s)
  show ?thesis
    using 1 2 3 4 by blast
qed

theorem parseRequest_since_witness:
  "Method \<lparr>Method = ''GET'', RawQuery = [(''limit'', ''5''), (''since'', ''yesterday'')], Body = []\<rparr> = ''GET''
   \<and> limitOk \<lparr>Method = ''GET'', RawQuery = [(''limit'', ''5''), (''since'', ''yesterday'')], Body = []\<rparr>
   \<and> getValue (URL_Query \<lparr>Method = ''GET'', RawQuery = [(''limit'', ''5''), (''since'', ''yesterday'')], Body = []\<rparr>) ''since'' = ''yesterday''
   \<and> isl (time_Parse testLibrary ''yesterday'')
   \<and> snd (parseRequest testLibrary
        \<lparr>Method = ''GET'', RawQuery = [(''limit'', ''5''), (''since'', ''yesterday'')], Body = []\<rparr>) \<noteq> None"
proof -
  let ?r = "\<lparr>Method = ''GET'', RawQuery = [(''limit'', ''5''), (''since'', ''yesterday'')], Body = []\<rparr>"
  have m: "Method ?r = ''GET''"
    by simp
  have l: "limitOk ?r"
    by (simp add: limitOk_def URL_Query_def getValue_def Atoi_def isDigit_def digitsValue_def
          maxInt_def minInt_def Let_def)
  have g: "getValue (URL_Query ?r) ''since'' = ''yesterday''"
    by (simp add: URL_Query_def getValue_def)
  have p: "isl (time_Parse testLibrary ''yesterday'')"
    by (simp add: testLibrary_def)
  have "snd (parseRequest testLibrary ?r) \<noteq> None"
    using parseRequest_since [OF m, of testLibrary] l g p by simp
  then show ?thesis
    using m l g p by simp
qed


text \<open>
  C9, as stated, fails: with the query \<open>follow=notabool&limit=abc\<close> the value of \<open>follow\<close>
  is not a boolean and parsing does return an error, the one of \<open>limit\<close>.
\<close>

theorem bool_default_counterexample:
  "snd (ParseBool (getValue (URL_Query
          \<lparr>Method = ''GET'', RawQuery = [(''follow'', ''notabool''), (''limit'', ''abc'')], Body = []\<rparr>)
          ''follow'')) \<noteq> None
   \<and> snd (parseRequest testLibrary
          \<lparr>Method = ''GET'', RawQuery = [(''follow'', ''notabool''), (''limit'', ''abc'')], Body = []\<rparr>)
       = Some (SyntaxError ''abc'')"
  by (simp add: parseRequest_def parseRequest_GET_def URL_Query_def getValue_def zero_Request_def
        ParseBool_def Atoi_def isDigit_def Let_def)

text \<open>
  C9, amended. For a GET request, a \<open>follow\<close> (or \<open>invert\<close>) value that \<open>ParseBool\<close>
  rejects leaves the field \<open>Follow\<close> (or \<open>Invert\<close>) false and is no cause of error:
  parsing returns no error exactly when neither \<open>limit\<close> nor \<open>since\<close> stops it, whatever
  the values of \<open>follow\<close> and \<open>invert\<close>.
\<close>

theorem parseRequest_bool_default:
  assumes "Method r = ''GET''"
  shows "(snd (ParseBool (getValue (URL_Query r) ''follow'')) \<noteq> None
            \<longrightarrow> Follow (fst (parseRequest lib r)) = False)
       \<and> (snd (ParseBool (getValue (URL_Query r) ''invert'')) \<noteq> None
            \<longrightarrow> Invert (fst (parseRequest lib r)) = False)
       \<and> (snd (parseRequest lib r) = None \<longleftrightarrow> limitOk r \<and> sinceOk lib r)"
proof -
  have b: "snd (ParseBool str) \<noteq> None \<Longrightarrow> fst (ParseBool str) = False" for str
    by (simp add: ParseBool_def split: if_splits)
  have f: "Follow (fst (parseRequest lib r))
             = (limitOk r \<and> fst (ParseBool (getValue (URL_Query r) ''follow'')))"
    using assms by (simp add: parseRequest_def parseRequest_GET_Follow)
  have i: "Invert (fst (parseRequest lib r))
             = (limitOk r \<and> fst (ParseBool (getValue (URL_Query r) ''invert'')))"
    using assms by (simp add: parseRequest_def parseRequest_GET_Invert)
  have e: "(snd (parseRequest lib r) = None) = (limitOk r \<and> sinceOk lib r)"
    using assms by (auto simp: parseRequest_def parseRequest_GET_error limitOk_def)
  show ?thesis
    using b [of "getValue (URL_Query r) ''follow''"] b [of "getValue (URL_Query r) ''invert''"]
    by (simp add: f i e)
qed

theorem parseRequest_bool_default_witness:
  "Method \<lparr>Method = ''GET'', RawQuery = [(''follow'', ''notabool''), (''name'', ''fn'')], Body = []\<rparr> = ''GET''
   \<and> snd (ParseBool (getValue (URL_Query
        \<lparr>Method = ''GET'', RawQuery = [(''follow'', ''notabool''), (''name'', ''fn'')], Body = []\<rparr>)
        ''follow'')) \<noteq> None
   \<and> Follow (fst (parseRequest testLibrary
        \<lparr>Method = ''GET'', RawQuery = [(''follow'', ''notabool''), (''name'', ''fn'')], Body = []\<rparr>)) = False
   \<and> snd (parseRequest testLibrary
        \<lparr>Method = ''GET'', RawQuery = [(''follow'', ''notabool''), (''name'', ''fn'')], Body = []\<rparr>) = None"
proof -
  let ?r = "\<lparr>Method = ''GET'', RawQuery = [(''follow'', ''notabool''), (''name'', ''fn'')], Body = []\<rparr>"
  have m: "Method ?r = ''GET''"
    by simp
  have p: "snd (ParseBool (getValue (URL_Query ?r) ''follow'')) \<noteq> None"
    by (simp add: URL_Query_def getValue_def ParseBool_def)
  have l: "limitOk ?r"
    by (simp add: limitOk_def URL_Query_def getValue_def)
  have s: "sinceOk testLibrary ?r"
    by (simp add: sinceOk_def URL_Query_def getValue_def)
  have "Follow (fst (parseRequest testLibrary ?r)) = False
        \<and> snd (parseRequest testLibrary ?r) = None"
    using parseRequest_bool_default [OF m, of testLibrary] p l s by blast
  then show ?thesis
    using m p by simp
qed

text \<open>
  C10, as stated, fails: with the query \<open>limit=abc&since=yesterday\<close> the \<open>since\<close> value
  is not empty and malformed, parsing returns an error, and \<open>Since\<close> is unset, because
  the parser returned at the \<open>limit\<close> error.
\<close>

theorem since_pointer_counterexample:
  "getValue (URL_Query
      \<lparr>Method = ''GET'', RawQuery = [(''limit'', ''abc''), (''since'', ''yesterday'')], Body = []\<rparr>)
      ''since'' = ''yesterday''
   \<and> isl (time_Parse testLibrary ''yesterday'')
   \<and> snd (parseRequest testLibrary
          \<lparr>Method = ''GET'', RawQuery = [(''limit'', ''abc''), (''since'', ''yesterday'')], Body = []\<rparr>)
       \<noteq> None
   \<and> Since (fst (parseRequest testLibrary
          \<lparr>Method = ''GET'', RawQuery = [(''limit'', ''abc''), (''since'', ''yesterday'')], Body = []\<rparr>))
       = None"
  by (simp add: parseRequest_def parseRequest_GET_def URL_Query_def getValue_def zero_Request_def
        testLibrary_def Atoi_def isDigit_def Let_def)

text \<open>
  C10, amended. For a GET request whose \<open>limit\<close> parameter is absent, empty or accepted
  by \<open>Atoi\<close> and whose \<open>since\<close> value is not empty and rejected by \<^verbatim>\<open>time.Parse\<close>, the
  parser returns the error of \<^verbatim>\<open>time.Parse\<close> together with a request whose \<open>Since\<close> is
  set, to the zero time, and whose \<open>Pattern\<close> is unset.
\<close>

theorem parseRequest_since_pointer:
  assumes "Method r = ''GET''"
    and "limitOk r"
    and "getValue (URL_Query r) ''since'' \<noteq> []"
    and "time_Parse lib (getValue (URL_Query r) ''since'') = Inl e"
  shows "snd (parseRequest lib r) = Some e
       \<and> Since (fst (parseRequest lib r)) = Some zero_Time
       \<and> Pattern (fst (parseRequest lib r)) = None"
proof -
  have so: "\<not> sinceOk lib r"
    using assms(3,4) by (simp add: sinceOk_def)
  have "snd (parseRequest lib r) = Some e"
    using assms so by (simp add: parseRequest_def parseRequest_GET_error)
  moreover have "Since (fst (parseRequest lib r)) = Some zero_Time"
    using assms by (simp add: parseRequest_def parseRequest_GET_Since)
  moreover have "Pattern (fst (parseRequest lib r)) = None"
    using assms(1) so by (simp add: parseRequest_def parseRequest_GET_Pattern)
  ultimately show ?thesis
    by simp
qed

theorem parseRequest_since_pointer_witness:
  "Method \<lparr>Method = ''GET'', RawQuery = [(''since'', ''yesterday''), (''limit'', ''-7'')], Body = []\<rparr> = ''GET''
   \<and> limitOk \<lparr>Method = ''GET'', RawQuery = [(''since'', ''yesterday''), (''limit'', ''-7'')], Body = []\<rparr>
   \<and> getValue (URL_Query \<lparr>Method = ''GET'', RawQuery = [(''since'', ''yesterday''), (''limit'', ''-7'')], Body = []\<rparr>) ''since'' \<noteq> []
   \<and> time_Parse testLibrary (getValue (URL_Query \<lparr>Method = ''GET'', RawQuery = [(''since'', ''yesterday''), (''limit'', ''-7'')], Body = []\<rparr>) ''since'')
       = Inl (TimeParseError ''yesterday'')
   \<and> Since (fst (parseRequest testLibrary
        \<lparr>Method = ''GET'', RawQuery = [(''since'', ''yesterday''), (''limit'', ''-7'')], Body = []\<rparr>))
       = Some (Time 0)"
proof -
  let ?r = "\<lparr>Method = ''GET'', RawQuery = [(''since'', ''yesterday''), (''limit'', ''-7'')], Body = []\<rparr>"
  have m: "Method ?r = ''GET''"
    by simp
  have l: "limitOk ?r"
    by (simp add: limitOk_def URL_Query_def getValue_def Atoi_def isDigit_def digitsValue_def
          maxInt_def minInt_def Let_def)
  have g: "getValue (URL_Query ?r) ''since'' \<noteq> []"
    by (simp add: URL_Query_def getValue_def)
  have p: "time_Parse testLibrary (getValue (URL_Query ?r) ''since'') = Inl (TimeParseError ''yesterday'')"
    by (simp add: testLibrary_def URL_Query_def getValue_def)
  have "Since (fst (parseRequest testLibrary ?r)) = Some (Time 0)"
    using parseRequest_since_pointer [OF m l g p] by (simp add: zero_Time_def)
  then show ?thesis
    using m l g p by simp
qed


section \<open>The message loop\<close>

lemma written_lines: "written (lines ms @ evs) = ms @ written evs"
  by (induction ms) (simp_all add: lines_def)

lemma streamLoop_Cons_rejected:
  "\<not> Filter rq lr msg \<Longrightarrow> streamLoop rq lr sent (Receive msg ok # rest) = streamLoop rq lr sent rest"
  by simp

lemma streamLoop_delete_rejected:
  assumes "\<not> Filter rq lr msg"
  shows "streamLoop rq lr sent (pre @ Receive msg ok # rest) = streamLoop rq lr sent (pre @ rest)"
  using assms
proof (induction rq lr sent pre rule: streamLoop.induct)
  case (4 requestor logRequest sent m b rest')
  then show ?case by (simp split: prod.splits)
qed simp_all

lemma streamLoop_dropRejected:
  "streamLoop rq lr sent (dropRejected rq lr outcomes) = streamLoop rq lr sent outcomes"
proof (induction rq lr sent outcomes rule: streamLoop.induct)
  case (4 requestor logRequest sent m b rest')
  then show ?case by (simp add: dropRejected_def split: prod.splits)
qed (simp_all add: dropRejected_def)

lemma streamLoop_written_kept:
  "m \<in> set (written (fst (streamLoop rq lr sent outcomes))) \<Longrightarrow> Filter rq lr m"
proof (induction rq lr sent outcomes rule: streamLoop.induct)
  case (4 requestor logRequest sent msg ok rest)
  then show ?case by (auto split: if_splits prod.splits)
qed simp_all

lemma streamLoop_limit:
  assumes "sent < Limit lr" and "0 \<le> sent"
    and "nat (Limit lr - sent) \<le> length (filter (Filter rq lr) ms)"
  shows "streamLoop rq lr sent (delivered ms @ rest)
           = (lines (take (nat (Limit lr - sent)) (filter (Filter rq lr) ms)), LimitReached)"
  using assms
proof (induction ms arbitrary: sent)
  case Nil
  then show ?case by simp
next
  case (Cons m ms)
  show ?case
  proof (cases "Filter rq lr m")
    case False
    then show ?thesis using Cons by (simp add: delivered_def)
  next
    case True
    show ?thesis
    proof (cases "sent + 1 \<ge> Limit lr")
      case True
      then have "nat (Limit lr - sent) = 1" using Cons.prems by simp
      then show ?thesis using \<open>Filter rq lr m\<close> True Cons.prems
        by (simp add: delivered_def lines_def)
    next
      case False
      then have n: "nat (Limit lr - sent) = Suc (nat (Limit lr - (sent + 1)))" by simp
      have "streamLoop rq lr (sent + 1) (delivered ms @ rest)
           = (lines (take (nat (Limit lr - (sent + 1))) (filter (Filter rq lr) ms)), LimitReached)"
        using Cons.IH [of "sent + 1"] Cons.prems False \<open>Filter rq lr m\<close> n by simp
      then show ?thesis using \<open>Filter rq lr m\<close> False Cons.prems n
        by (simp add: delivered_def lines_def)
    qed
  qed
qed

lemma streamLoop_unlimited:
  assumes "Limit lr \<le> 0"
  shows "streamLoop rq lr sent (delivered ms @ rest)
           = (lines (filter (Filter rq lr) ms) @ fst (streamLoop rq lr sent rest),
              snd (streamLoop rq lr sent rest))"
  using assms
  by (induction ms) (simp_all add: delivered_def lines_def split: prod.splits)

lemma streamLoop_unlimited_exit:
  assumes "Limit lr \<le> 0"
  shows "snd (streamLoop rq lr sent outcomes) \<noteq> LimitReached"
  using assms
proof (induction rq lr sent outcomes rule: streamLoop.induct)
  case (4 requestor logRequest sent msg ok rest)
  then show ?case by (auto split: prod.splits)
qed simp_all

lemma streamLoop_fault:
  assumes "snd (streamLoop rq lr sent pre) = Blocked" and "Filter rq lr msg"
  shows "streamLoop rq lr sent (pre @ Receive msg False # rest)
           = (fst (streamLoop rq lr sent pre) @ [EncodeFailed msg, EncodeFallback failedToSerialize],
              Faulted)"
  using assms
proof (induction rq lr sent pre rule: streamLoop.induct)
  case (4 requestor logRequest sent m ok rest')
  then show ?case by (auto split: if_splits prod.splits)
qed simp_all

lemma streamLoop_no_fallback:
  assumes "snd (streamLoop rq lr sent pre) = Blocked"
  shows "EncodeFallback m \<notin> set (fst (streamLoop rq lr sent pre))
       \<and> EncodeFailed m \<notin> set (fst (streamLoop rq lr sent pre))"
  using assms
proof (induction rq lr sent pre rule: streamLoop.induct)
  case (4 requestor logRequest sent msg ok rest')
  then show ?case by (auto split: if_splits prod.splits)
qed simp_all

lemma NewLogHandlerFunc_streaming:
  assumes "is_CloseNotifier w" and "is_Flusher w"
    and "parseRequest lib r = (lr, None)" and "Query rq lr = Channel"
  shows "NewLogHandlerFunc lib rq w r outcomes
           = (QueryCall lr # streamingHeaders @ fst (streamLoop rq lr 0 outcomes)
                @ deferred [CancelQuery, BodyClose] (snd (streamLoop rq lr 0 outcomes)),
              snd (streamLoop rq lr 0 outcomes))"
  using assms by (simp add: NewLogHandlerFunc_def streamingHeaders_def split: prod.splits)


section \<open>The handler\<close>

lemma written_streamingHeaders: "written (streamingHeaders @ evs) = written evs"
  by (simp add: streamingHeaders_def)

lemma written_deferred: "written (evs @ deferred [CancelQuery, BodyClose] ex) = written evs"
  by (induction evs rule: written.induct) (simp_all add: deferred_def)

lemma NewLogHandlerFunc_written:
  "written (fst (NewLogHandlerFunc lib rq w r outcomes)) = [] \<or>
   written (fst (NewLogHandlerFunc lib rq w r outcomes))
     = written (fst (streamLoop rq (fst (parseRequest lib r)) 0 outcomes))"
  using written_deferred [of "fst (streamLoop rq (fst (parseRequest lib r)) 0 outcomes)"]
  by (auto simp: NewLogHandlerFunc_def split: prod.splits option.splits query_result.splits)

text \<open>
  C1. The response writer supports streaming, the request parses to \<open>lr\<close> and the
  requestor returns a channel. If the limit of \<open>lr\<close> is \<open>k > 0\<close> and the channel delivers
  the messages \<open>ms\<close>, of which \<open>Filter\<close> keeps at least \<open>k\<close>, each written by the encoder,
  then the handler writes the first \<open>k\<close> kept messages, in the order of delivery, each
  followed by a flush, and returns, whatever would come next (\<open>rest\<close>: more messages, the
  end of the stream, or nothing at all, as when the source is followed). Nothing is
  assumed of \<open>Follow lr\<close>, which the handler does not read.
\<close>

theorem handler_limit:
  assumes "is_CloseNotifier w" and "is_Flusher w"
    and "parseRequest lib r = (lr, None)" and "Query rq lr = Channel"
    and "0 < Limit lr"
    and "nat (Limit lr) \<le> length (filter (Filter rq lr) ms)"
  shows "NewLogHandlerFunc lib rq w r (delivered ms @ rest)
           = (QueryCall lr # streamingHeaders
                @ lines (take (nat (Limit lr)) (filter (Filter rq lr) ms))
                @ [CancelQuery, BodyClose],
              LimitReached)
       \<and> written (fst (NewLogHandlerFunc lib rq w r (delivered ms @ rest)))
           = take (nat (Limit lr)) (filter (Filter rq lr) ms)
       \<and> int (length (written (fst (NewLogHandlerFunc lib rq w r (delivered ms @ rest)))))
           = Limit lr"
proof -
  have loop: "streamLoop rq lr 0 (delivered ms @ rest)
                = (lines (take (nat (Limit lr)) (filter (Filter rq lr) ms)), LimitReached)"
    using streamLoop_limit [of 0 lr rq ms rest] assms(5,6) by simp
  have h: "NewLogHandlerFunc lib rq w r (delivered ms @ rest)
           = (QueryCall lr # streamingHeaders
                @ lines (take (nat (Limit lr)) (filter (Filter rq lr) ms))
                @ [CancelQuery, BodyClose],
              LimitReached)"
    using NewLogHandlerFunc_streaming [OF assms(1-4), of "delivered ms @ rest"]
    by (simp add: loop deferred_def)
  have wr: "written (fst (NewLogHandlerFunc lib rq w r (delivered ms @ rest)))
           = take (nat (Limit lr)) (filter (Filter rq lr) ms)"
    using written_lines [of "take (nat (Limit lr)) (filter (Filter rq lr) ms)" "[CancelQuery, BodyClose]"]
    by (simp add: h written_streamingHeaders)
  have "int (length (take (nat (Limit lr)) (filter (Filter rq lr) ms))) = Limit lr"
    using assms(5,6) by simp
  then show ?thesis
    using h wr by simp
qed


theorem handler_limit_witness:
  "is_CloseNotifier streamingWriter \<and> is_Flusher streamingWriter
   \<and> parseRequest testLibrary
        \<lparr>Method = ''GET'', RawQuery = [(''limit'', ''2''), (''follow'', ''true'')], Body = []\<rparr>
       = (zero_Request\<lparr>Limit := 2, Follow := True\<rparr>, None)
   \<and> Query testRequestor (zero_Request\<lparr>Limit := 2, Follow := True\<rparr>) = Channel
   \<and> 0 < Limit (zero_Request\<lparr>Limit := 2, Follow := True\<rparr>)
   \<and> nat (Limit (zero_Request\<lparr>Limit := 2, Follow := True\<rparr>))
       \<le> length (filter (Filter testRequestor (zero_Request\<lparr>Limit := 2, Follow := True\<rparr>))
                   [message ''a'', message [], message ''b'', message ''c''])
   \<and> written (fst (NewLogHandlerFunc testLibrary testRequestor streamingWriter
         \<lparr>Method = ''GET'', RawQuery = [(''limit'', ''2''), (''follow'', ''true'')], Body = []\<rparr>
         (delivered [message ''a'', message [], message ''b'', message ''c''] @ [])))
       = [message ''a'', message ''b'']"
proof -
  let ?r = "\<lparr>Method = ''GET'', RawQuery = [(''limit'', ''2''), (''follow'', ''true'')], Body = []\<rparr>"
  let ?lr = "zero_Request\<lparr>Limit := 2, Follow := True\<rparr>"
  let ?ms = "[message ''a'', message [], message ''b'', message ''c'']"
  have c: "is_CloseNotifier streamingWriter" and f: "is_Flusher streamingWriter"
    by (simp_all add: streamingWriter_def)
  have p: "parseRequest testLibrary ?r = (?lr, None)"
    by (simp add: parseRequest_def parseRequest_GET_def URL_Query_def getValue_def zero_Request_def
          testLibrary_def ParseBool_def Atoi_def isDigit_def digitsValue_def maxInt_def minInt_def
          Let_def)
  have q: "Query testRequestor ?lr = Channel"
    by (simp add: testRequestor_def)
  have l: "0 < Limit ?lr"
    by (simp add: zero_Request_def)
  have k: "filter (Filter testRequestor ?lr) ?ms = [message ''a'', message ''b'', message ''c'']"
    by (simp add: testRequestor_def message_def)
  have n: "nat (Limit ?lr) \<le> length (filter (Filter testRequestor ?lr) ?ms)"
    by (subst k) simp
  have "written (fst (NewLogHandlerFunc testLibrary testRequestor streamingWriter ?r
          (delivered ?ms @ []))) = take (nat (Limit ?lr)) (filter (Filter testRequestor ?lr) ?ms)"
    using handler_limit [OF c f p q l n, of "[]"] by blast
  also have "\<dots> = [message ''a'', message ''b'']"
    by (subst k) simp
  finally show ?thesis
    using c f p q l n by blast
qed


text \<open>
  C2. A message that \<open>Filter\<close> rejects has no effect on the handler: the handler does
  the same, and ends the same way, on the outcomes without the rejected messages; in the
  loop, a rejected message can be deleted anywhere in the stream without changing what
  is written after it or when the limit is reached, for every value of the counter; and
  every message whose line is written is one that \<open>Filter\<close> keeps.
\<close>

theorem handler_filter_rejected:
  "NewLogHandlerFunc lib rq w r (dropRejected rq (fst (parseRequest lib r)) outcomes)
     = NewLogHandlerFunc lib rq w r outcomes
   \<and> (\<not> Filter rq lr msg \<longrightarrow>
        streamLoop rq lr sent (pre @ Receive msg ok # rest) = streamLoop rq lr sent (pre @ rest))
   \<and> (\<forall>m \<in> set (written (fst (NewLogHandlerFunc lib rq w r outcomes))).
        Filter rq (fst (parseRequest lib r)) m)"
proof -
  have a: "NewLogHandlerFunc lib rq w r (dropRejected rq (fst (parseRequest lib r)) outcomes)
     = NewLogHandlerFunc lib rq w r outcomes"
    by (cases "parseRequest lib r")
       (simp add: NewLogHandlerFunc_def streamLoop_dropRejected
          split: option.splits query_result.splits)
  have b: "\<not> Filter rq lr msg \<Longrightarrow>
        streamLoop rq lr sent (pre @ Receive msg ok # rest) = streamLoop rq lr sent (pre @ rest)"
    by (rule streamLoop_delete_rejected)
  have c: "Filter rq (fst (parseRequest lib r)) m"
    if "m \<in> set (written (fst (NewLogHandlerFunc lib rq w r outcomes)))" for m
    using that NewLogHandlerFunc_written [of lib rq w r outcomes]
      streamLoop_written_kept [of m rq "fst (parseRequest lib r)" 0 outcomes]
    by auto
  show ?thesis
    using a b c by blast
qed

theorem handler_filter_rejected_witness:
  "\<not> Filter testRequestor zero_Request (message [])
   \<and> streamLoop testRequestor zero_Request 0 ([Receive (message ''a'') True] @ Receive (message []) True # [Closed])
       = ([Encode (message ''a''), Flush], Completed)
   \<and> written (fst (NewLogHandlerFunc testLibrary testRequestor streamingWriter
         \<lparr>Method = ''GET'', RawQuery = [], Body = []\<rparr>
         [Receive (message []) True, Receive (message ''a'') True, Closed])) = [message ''a'']"
proof -
  let ?r = "\<lparr>Method = ''GET'', RawQuery = [], Body = []\<rparr>"
  have f: "\<not> Filter testRequestor zero_Request (message [])"
    by (simp add: testRequestor_def message_def)
  have k: "Filter testRequestor zero_Request (message ''a'')"
    by (simp add: testRequestor_def message_def)
  have "streamLoop testRequestor zero_Request 0 ([Receive (message ''a'') True] @ Receive (message []) True # [Closed])
          = streamLoop testRequestor zero_Request 0 ([Receive (message ''a'') True] @ [Closed])"
    using handler_filter_rejected f by blast
  also have "\<dots> = ([Encode (message ''a''), Flush], Completed)"
    using k by (simp add: zero_Request_def)
  finally have s: "streamLoop testRequestor zero_Request 0 ([Receive (message ''a'') True] @ Receive (message []) True # [Closed])
       = ([Encode (message ''a''), Flush], Completed)" .
  have w: "written (fst (NewLogHandlerFunc testLibrary testRequestor streamingWriter ?r
         [Receive (message []) True, Receive (message ''a'') True, Closed])) = [message ''a'']"
    by (simp add: NewLogHandlerFunc_def parseRequest_def parseRequest_GET_def URL_Query_def
          getValue_def zero_Request_def testLibrary_def testRequestor_def streamingWriter_def
          ParseBool_def message_def deferred_def Let_def)
  show ?thesis
    using f s w by blast
qed

text \<open>
  C7. When parsing the request returns an error, the handler never calls \<open>Query\<close>; on
  a response writer that supports streaming (otherwise the handler has answered before
  it parses), the status is 422, the handler ends there and no message is written.
\<close>

theorem handler_parse_failure:
  assumes "snd (parseRequest lib r) \<noteq> None"
  shows "(\<forall>lr. QueryCall lr \<notin> set (fst (NewLogHandlerFunc lib rq w r outcomes)))
       \<and> (is_CloseNotifier w \<and> is_Flusher w \<longrightarrow>
            statusCode (fst (NewLogHandlerFunc lib rq w r outcomes)) = Some 422
            \<and> snd (NewLogHandlerFunc lib rq w r outcomes) = ParseFailed
            \<and> written (fst (NewLogHandlerFunc lib rq w r outcomes)) = [])"
  using assms
  by (auto simp: NewLogHandlerFunc_def split: prod.splits option.splits)

text \<open>The three causes of a parse error: \<open>limit\<close>, \<open>since\<close>, and the JSON body of a POST.\<close>

lemma parseRequest_fails:
  "snd (parseRequest lib r) \<noteq> None \<longleftrightarrow>
     (Method r = ''GET'' \<and> \<not> (limitOk r \<and> sinceOk lib r))
     \<or> (Method r = ''POST'' \<and> snd (json_Decode lib (Body r) zero_Request) \<noteq> None)"
  by (auto simp: parseRequest_def parseRequest_GET_error limitOk_def)

theorem handler_parse_failure_witness:
  "snd (parseRequest testLibrary \<lparr>Method = ''GET'', RawQuery = [(''limit'', ''abc'')], Body = []\<rparr>) \<noteq> None
   \<and> is_CloseNotifier streamingWriter \<and> is_Flusher streamingWriter
   \<and> statusCode (fst (NewLogHandlerFunc testLibrary testRequestor streamingWriter
        \<lparr>Method = ''GET'', RawQuery = [(''limit'', ''abc'')], Body = []\<rparr> [Receive (message ''a'') True, Closed]))
       = Some 422
   \<and> snd (parseRequest testLibrary \<lparr>Method = ''POST'', RawQuery = [], Body = ''{''\<rparr>) \<noteq> None
   \<and> statusCode (fst (NewLogHandlerFunc testLibrary testRequestor streamingWriter
        \<lparr>Method = ''POST'', RawQuery = [], Body = ''{''\<rparr> [Receive (message ''a'') True, Closed]))
       = Some 422"
proof -
  let ?r = "\<lparr>Method = ''GET'', RawQuery = [(''limit'', ''abc'')], Body = []\<rparr>"
  let ?p = "\<lparr>Method = ''POST'', RawQuery = [], Body = ''{''\<rparr>"
  have e: "snd (parseRequest testLibrary ?r) \<noteq> None"
    by (simp add: parseRequest_def parseRequest_GET_def URL_Query_def getValue_def
          Atoi_def isDigit_def Let_def)
  have e': "snd (parseRequest testLibrary ?p) \<noteq> None"
    by (simp add: parseRequest_def testLibrary_def)
  have c: "is_CloseNotifier streamingWriter \<and> is_Flusher streamingWriter"
    by (simp add: streamingWriter_def)
  show ?thesis
    using e e' c
      handler_parse_failure [OF e, of testRequestor streamingWriter "[Receive (message ''a'') True, Closed]"]
      handler_parse_failure [OF e', of testRequestor streamingWriter "[Receive (message ''a'') True, Closed]"]
    by blast
qed

text \<open>
  C3, as stated, fails: with limit 0 and a filter that rejects the messages with an
  empty text, the first of the two messages that the stream yields is not written.
\<close>

theorem unlimited_counterexample:
  "Limit (fst (parseRequest testLibrary
                 \<lparr>Method = ''GET'', RawQuery = [(''limit'', ''0'')], Body = []\<rparr>)) \<le> 0
   \<and> written (fst (NewLogHandlerFunc testLibrary testRequestor streamingWriter
         \<lparr>Method = ''GET'', RawQuery = [(''limit'', ''0'')], Body = []\<rparr>
         [Receive (message []) True, Receive (message ''a'') True, Closed]))
       = [message ''a'']
   \<and> [message ''a''] \<noteq> [message [], message ''a'']"
  by (simp add: NewLogHandlerFunc_def parseRequest_def parseRequest_GET_def URL_Query_def
        getValue_def zero_Request_def testLibrary_def testRequestor_def streamingWriter_def
        ParseBool_def message_def deferred_def Atoi_def isDigit_def digitsValue_def
        maxInt_def minInt_def Let_def)

text \<open>
  C3, amended. The response writer supports streaming, the request parses to \<open>lr\<close> with
  a limit \<open>\<le> 0\<close> and the requestor returns a channel. When the channel delivers the
  messages \<open>ms\<close>, each written by the encoder, the handler writes every message of \<open>ms\<close>
  that \<open>Filter\<close> keeps, in the order of delivery, each followed by a flush, however many
  they are; it then returns when the channel is closed or the client disconnects, and
  waits when neither happens. On no list of outcomes does it end on the limit.
\<close>

theorem handler_unlimited:
  assumes "is_CloseNotifier w" and "is_Flusher w"
    and "parseRequest lib r = (lr, None)" and "Query rq lr = Channel"
    and "Limit lr \<le> 0"
  shows "NewLogHandlerFunc lib rq w r (delivered ms @ Closed # rest)
           = (QueryCall lr # streamingHeaders @ lines (filter (Filter rq lr) ms)
                @ [CancelQuery, BodyClose], Completed)
       \<and> NewLogHandlerFunc lib rq w r (delivered ms @ CloseNotify # rest)
           = (QueryCall lr # streamingHeaders @ lines (filter (Filter rq lr) ms)
                @ [CancelQuery, BodyClose], Disconnected)
       \<and> NewLogHandlerFunc lib rq w r (delivered ms)
           = (QueryCall lr # streamingHeaders @ lines (filter (Filter rq lr) ms), Blocked)
       \<and> snd (NewLogHandlerFunc lib rq w r outcomes) \<noteq> LimitReached"
proof -
  have a: "NewLogHandlerFunc lib rq w r (delivered ms @ Closed # rest)
           = (QueryCall lr # streamingHeaders @ lines (filter (Filter rq lr) ms)
                @ [CancelQuery, BodyClose], Completed)"
    using NewLogHandlerFunc_streaming [OF assms(1-4), of "delivered ms @ Closed # rest"]
      streamLoop_unlimited [OF assms(5), of rq 0 ms "Closed # rest"]
    by (simp add: deferred_def)
  have b: "NewLogHandlerFunc lib rq w r (delivered ms @ CloseNotify # rest)
           = (QueryCall lr # streamingHeaders @ lines (filter (Filter rq lr) ms)
                @ [CancelQuery, BodyClose], Disconnected)"
    using NewLogHandlerFunc_streaming [OF assms(1-4), of "delivered ms @ CloseNotify # rest"]
      streamLoop_unlimited [OF assms(5), of rq 0 ms "CloseNotify # rest"]
    by (simp add: deferred_def)
  have c: "NewLogHandlerFunc lib rq w r (delivered ms)
           = (QueryCall lr # streamingHeaders @ lines (filter (Filter rq lr) ms), Blocked)"
    using NewLogHandlerFunc_streaming [OF assms(1-4), of "delivered ms"]
      streamLoop_unlimited [OF assms(5), of rq 0 ms "[]"]
    by (simp add: deferred_def)
  have d: "snd (NewLogHandlerFunc lib rq w r outcomes) \<noteq> LimitReached"
    using NewLogHandlerFunc_streaming [OF assms(1-4), of outcomes]
      streamLoop_unlimited_exit [OF assms(5), of rq 0 outcomes]
    by simp
  show ?thesis
    using a b c d by blast
qed

theorem handler_unlimited_witness:
  "is_CloseNotifier streamingWriter \<and> is_Flusher streamingWriter
   \<and> parseRequest testLibrary \<lparr>Method = ''GET'', RawQuery = [(''limit'', ''-1'')], Body = []\<rparr>
       = (zero_Request\<lparr>Limit := - 1\<rparr>, None)
   \<and> Query testRequestor (zero_Request\<lparr>Limit := - 1\<rparr>) = Channel
   \<and> Limit (zero_Request\<lparr>Limit := - 1\<rparr>) \<le> 0
   \<and> NewLogHandlerFunc testLibrary testRequestor streamingWriter
        \<lparr>Method = ''GET'', RawQuery = [(''limit'', ''-1'')], Body = []\<rparr>
        (delivered [message ''a'', message ''b'', message ''c''] @ Closed # [])
       = (QueryCall (zero_Request\<lparr>Limit := - 1\<rparr>) # streamingHeaders
            @ lines [message ''a'', message ''b'', message ''c''] @ [CancelQuery, BodyClose],
          Completed)"
proof -
  let ?r = "\<lparr>Method = ''GET'', RawQuery = [(''limit'', ''-1'')], Body = []\<rparr>"
  let ?lr = "zero_Request\<lparr>Limit := - 1\<rparr>"
  let ?ms = "[message ''a'', message ''b'', message ''c'']"
  have c: "is_CloseNotifier streamingWriter" and f: "is_Flusher streamingWriter"
    by (simp_all add: streamingWriter_def)
  have p: "parseRequest testLibrary ?r = (?lr, None)"
    by (simp add: parseRequest_def parseRequest_GET_def URL_Query_def getValue_def zero_Request_def
          testLibrary_def ParseBool_def Atoi_def isDigit_def digitsValue_def maxInt_def minInt_def
          Let_def)
  have q: "Query testRequestor ?lr = Channel"
    by (simp add: testRequestor_def)
  have l: "Limit ?lr \<le> 0"
    by simp
  have k: "filter (Filter testRequestor ?lr) ?ms = ?ms"
    by (simp add: testRequestor_def message_def)
  have "NewLogHandlerFunc testLibrary testRequestor streamingWriter ?r (delivered ?ms @ Closed # [])
          = (QueryCall ?lr # streamingHeaders @ lines (filter (Filter testRequestor ?lr) ?ms)
               @ [CancelQuery, BodyClose], Completed)"
    using handler_unlimited [OF c f p q l, of ?ms "[]"] by blast
  then have "NewLogHandlerFunc testLibrary testRequestor streamingWriter ?r (delivered ?ms @ Closed # [])
          = (QueryCall ?lr # streamingHeaders @ lines ?ms @ [CancelQuery, BodyClose], Completed)"
    by (simp only: k)
  then show ?thesis
    using c f p q l by blast
qed

text \<open>
  C4. The response writer supports streaming, the request parses and the requestor
  returns a channel. If the loop is still running after the outcomes \<open>pre\<close> and the
  encoder then fails on a message that \<open>Filter\<close> keeps, the handler makes exactly one
  further call of the encoder, for the fallback message, whose text is
  \<open>failed to serialize log message\<close>, and returns: no such call was made before, and
  nothing that the stream holds after the failed message (\<open>rest\<close>) is written.
\<close>

theorem handler_serialization_failure:
  assumes "is_CloseNotifier w" and "is_Flusher w"
    and "parseRequest lib r = (lr, None)" and "Query rq lr = Channel"
    and "snd (streamLoop rq lr 0 pre) = Blocked" and "Filter rq lr msg"
  shows "NewLogHandlerFunc lib rq w r (pre @ Receive msg False # rest)
           = (QueryCall lr # streamingHeaders @ fst (streamLoop rq lr 0 pre)
                @ [EncodeFailed msg, EncodeFallback failedToSerialize, CancelQuery, BodyClose],
              Faulted)
       \<and> (\<forall>m. EncodeFallback m \<notin> set (QueryCall lr # streamingHeaders @ fst (streamLoop rq lr 0 pre)))
       \<and> written (fst (NewLogHandlerFunc lib rq w r (pre @ Receive msg False # rest)))
           = written (fst (streamLoop rq lr 0 pre))
       \<and> Text failedToSerialize = ''failed to serialize log message''"
proof -
  have a: "NewLogHandlerFunc lib rq w r (pre @ Receive msg False # rest)
           = (QueryCall lr # streamingHeaders @ fst (streamLoop rq lr 0 pre)
                @ [EncodeFailed msg, EncodeFallback failedToSerialize, CancelQuery, BodyClose],
              Faulted)"
    using NewLogHandlerFunc_streaming [OF assms(1-4), of "pre @ Receive msg False # rest"]
      streamLoop_fault [OF assms(5,6), of rest]
    by (simp add: deferred_def)
  have b: "EncodeFallback m \<notin> set (QueryCall lr # streamingHeaders @ fst (streamLoop rq lr 0 pre))" for m
    using streamLoop_no_fallback [OF assms(5), of m] by (simp add: streamingHeaders_def)
  have w: "written (evs @ [EncodeFailed msg, EncodeFallback failedToSerialize, CancelQuery, BodyClose])
             = written evs" for evs
    by (induction evs rule: written.induct) simp_all
  have c: "written (fst (NewLogHandlerFunc lib rq w r (pre @ Receive msg False # rest)))
           = written (fst (streamLoop rq lr 0 pre))"
    by (simp add: a written_streamingHeaders w)
  show ?thesis
    using a b c by (simp add: failedToSerialize_def)
qed

theorem handler_serialization_failure_witness:
  "is_CloseNotifier streamingWriter \<and> is_Flusher streamingWriter
   \<and> parseRequest testLibrary \<lparr>Method = ''GET'', RawQuery = [], Body = []\<rparr> = (zero_Request, None)
   \<and> Query testRequestor zero_Request = Channel
   \<and> snd (streamLoop testRequestor zero_Request 0 [Receive (message ''a'') True]) = Blocked
   \<and> Filter testRequestor zero_Request (message ''b'')
   \<and> NewLogHandlerFunc testLibrary testRequestor streamingWriter
        \<lparr>Method = ''GET'', RawQuery = [], Body = []\<rparr>
        ([Receive (message ''a'') True] @ Receive (message ''b'') False # [Receive (message ''c'') True, Closed])
       = ([QueryCall zero_Request, SetHeader ''Transfer-Encoding'' ''chunked'',
           SetHeader ''Content-Type'' ''application/x-ndjson'', WriteHeader 200, Flush,
           Encode (message ''a''), Flush, EncodeFailed (message ''b''),
           EncodeFallback failedToSerialize, CancelQuery, BodyClose], Faulted)"
proof -
  let ?r = "\<lparr>Method = ''GET'', RawQuery = [], Body = []\<rparr>"
  have c: "is_CloseNotifier streamingWriter" and f: "is_Flusher streamingWriter"
    by (simp_all add: streamingWriter_def)
  have p: "parseRequest testLibrary ?r = (zero_Request, None)"
    by (simp add: parseRequest_def parseRequest_GET_def URL_Query_def getValue_def zero_Request_def
          testLibrary_def ParseBool_def Let_def)
  have q: "Query testRequestor zero_Request = Channel"
    by (simp add: testRequestor_def)
  have ka: "Filter testRequestor zero_Request (message ''a'')"
    and kb: "Filter testRequestor zero_Request (message ''b'')"
    by (simp_all add: testRequestor_def message_def)
  have s: "streamLoop testRequestor zero_Request 0 [Receive (message ''a'') True]
             = ([Encode (message ''a''), Flush], Blocked)"
    using ka by (simp add: zero_Request_def)
  then have b: "snd (streamLoop testRequestor zero_Request 0 [Receive (message ''a'') True]) = Blocked"
    by simp
  have "NewLogHandlerFunc testLibrary testRequestor streamingWriter ?r
        ([Receive (message ''a'') True] @ Receive (message ''b'') False # [Receive (message ''c'') True, Closed])
       = (QueryCall zero_Request # streamingHeaders
            @ fst (streamLoop testRequestor zero_Request 0 [Receive (message ''a'') True])
            @ [EncodeFailed (message ''b''), EncodeFallback failedToSerialize, CancelQuery, BodyClose],
          Faulted)"
    using handler_serialization_failure [OF c f p q b kb] by blast
  then have "NewLogHandlerFunc testLibrary testRequestor streamingWriter ?r
        ([Receive (message ''a'') True] @ Receive (message ''b'') False # [Receive (message ''c'') True, Closed])
       = ([QueryCall zero_Request, SetHeader ''Transfer-Encoding'' ''chunked'',
           SetHeader ''Content-Type'' ''application/x-ndjson'', WriteHeader 200, Flush,
           Encode (message ''a''), Flush, EncodeFailed (message ''b''),
           EncodeFallback failedToSerialize, CancelQuery, BodyClose], Faulted)"
    by (simp only: s streamingHeaders_def fst_conv append.simps)
  then show ?thesis
    using c f p q b kb by blast
qed


end
